theory Spec2Isabelle
  imports Complex_Main "HOL-Library.Log_Nat" "HOL-Library.Sublist"
begin

section \<open>JavaScript numbers\<close>

text \<open>
  Every number of the program is an IEEE 754 binary64 value.  A value is a finite number
  (sign bit and magnitude, so that \<open>-0\<close> is \<open>Finite True 0\<close>), an infinity with its sign,
  or NaN.  The magnitude of a finite value is kept as an exact rational; the arithmetic
  operations round their exact result to the nearest binary64 value, ties to even.
\<close>

datatype num = Finite bool rat | Infinity bool | NaN

definition round_even :: "rat \<Rightarrow> int" where
  "round_even q = (let f = \<lfloor>q\<rfloor>; r = q - of_int f
     in if r < 1 / 2 then f else if 1 / 2 < r then f + 1 else if even f then f else f + 1)"

definition pow2 :: "int \<Rightarrow> rat" where
  "pow2 e = (if 0 \<le> e then 2 ^ nat e else 1 / 2 ^ nat (- e))"

text \<open>\<open>ilog2 q\<close> is the integer \<open>k\<close> with \<open>2 ^ k \<le> q < 2 ^ (k + 1)\<close>, for \<open>q > 0\<close>.\<close>

definition ilog2 :: "rat \<Rightarrow> int" where
  "ilog2 q = (if 1 \<le> q then bitlen \<lfloor>q\<rfloor> - 1 else - bitlen (\<lceil>1 / q\<rceil> - 1))"

text \<open>
  Rounding of an exact magnitude \<open>a \<ge> 0\<close> with sign \<open>s\<close>: 53 significant bits, the least
  exponent of a binary64 subnormal is \<open>-1074\<close>, and a rounded magnitude of \<open>2 ^ 1024\<close> or
  more overflows to the infinity of that sign.
\<close>

definition round_binary64 :: "bool \<Rightarrow> rat \<Rightarrow> num" where
  "round_binary64 s a =
     (if a = 0 then Finite s 0
      else let e = max (ilog2 a - 52) (- 1074);
               v = of_int (round_even (a / pow2 e)) * pow2 e
           in if 2 ^ 1024 \<le> v then Infinity s else Finite s v)"

text \<open>A non-negative decimal literal of the source denotes the nearest binary64 value.\<close>

definition lit :: "rat \<Rightarrow> num" where
  "lit q = round_binary64 False q"

text \<open>The operator \<open>*\<close>.\<close>

fun fmul :: "num \<Rightarrow> num \<Rightarrow> num" where
  "fmul NaN _ = NaN"
| "fmul _ NaN = NaN"
| "fmul (Infinity s) (Infinity t) = Infinity (s \<noteq> t)"
| "fmul (Infinity s) (Finite t b) = (if b = 0 then NaN else Infinity (s \<noteq> t))"
| "fmul (Finite s a) (Infinity t) = (if a = 0 then NaN else Infinity (s \<noteq> t))"
| "fmul (Finite s a) (Finite t b) = round_binary64 (s \<noteq> t) (a * b)"

text \<open>The operator \<open>/\<close>: a division by zero gives an infinity or NaN, never an error.\<close>

fun fdiv :: "num \<Rightarrow> num \<Rightarrow> num" where
  "fdiv NaN _ = NaN"
| "fdiv _ NaN = NaN"
| "fdiv (Infinity s) (Infinity t) = NaN"
| "fdiv (Infinity s) (Finite t b) = Infinity (s \<noteq> t)"
| "fdiv (Finite s a) (Infinity t) = Finite (s \<noteq> t) 0"
| "fdiv (Finite s a) (Finite t b) =
     (if b = 0 then (if a = 0 then NaN else Infinity (s \<noteq> t))
      else round_binary64 (s \<noteq> t) (a / b))"

definition signed :: "bool \<Rightarrow> rat \<Rightarrow> rat" where
  "signed s a = (if s then - a else a)"

text \<open>The operator \<open><\<close>; \<open>x > y\<close> is \<open>less_num y x\<close>.  A comparison with NaN is false.\<close>

fun less_num :: "num \<Rightarrow> num \<Rightarrow> bool" where
  "less_num NaN _ = False"
| "less_num _ NaN = False"
| "less_num (Finite s a) (Finite t b) = (signed s a < signed t b)"
| "less_num (Finite s a) (Infinity t) = (\<not> t)"
| "less_num (Infinity s) (Finite t b) = s"
| "less_num (Infinity s) (Infinity t) = (s \<and> \<not> t)"

text \<open>The operator \<open><=\<close>.\<close>

fun le_num :: "num \<Rightarrow> num \<Rightarrow> bool" where
  "le_num NaN _ = False"
| "le_num _ NaN = False"
| "le_num (Finite s a) (Finite t b) = (signed s a \<le> signed t b)"
| "le_num (Finite s a) (Infinity t) = (\<not> t)"
| "le_num (Infinity s) (Finite t b) = s"
| "le_num (Infinity s) (Infinity t) = (s \<or> \<not> t)"

text \<open>Truthiness of a number, as \<open>||\<close> tests it: both zeros and NaN are falsy.\<close>

fun truthy :: "num \<Rightarrow> bool" where
  "truthy NaN = False"
| "truthy (Infinity s) = True"
| "truthy (Finite s a) = (a \<noteq> 0)"

subsection \<open>\<open>toFixed\<close> and \<open>parseFloat\<close>\<close>

text \<open>
  \<open>x.toFixed(f)\<close> returns a string.  For a finite \<open>x\<close> below \<open>10 ^ 21\<close> in magnitude it is
  a decimal with exactly \<open>f\<close> fraction digits: the integer \<open>n\<close> for which \<open>n / 10 ^ f\<close> is
  closest to the magnitude of \<open>x\<close> (the larger \<open>n\<close> on a tie), with a minus sign if
  \<open>x < 0\<close>.  Every other value is printed by \<open>ToString\<close>.  The string is kept structured.
\<close>

datatype numeric_string = Decimal bool int nat | ToString num

fun toFixed :: "num \<Rightarrow> nat \<Rightarrow> numeric_string" where
  "toFixed (Finite s a) f =
     (if a < 10 ^ 21 then Decimal (s \<and> a \<noteq> 0) \<lfloor>a * 10 ^ f + 1 / 2\<rfloor> f
      else ToString (Finite s a))"
| "toFixed x f = ToString x"

text \<open>
  \<open>parseFloat\<close> reads a decimal as the nearest binary64 value (\<open>"-0.000"\<close> as \<open>-0\<close>), and
  reads the \<open>ToString\<close> form of a number back as that number.
\<close>

fun parseFloat :: "numeric_string \<Rightarrow> num" where
  "parseFloat (Decimal s n f) = round_binary64 s (of_int n / 10 ^ f)"
| "parseFloat (ToString x) = x"

section \<open>Rate tables (constants/config.js)\<close>

text \<open>
  The tables are object literals indexed by a string.  A key of the literal is an own
  property; a name that \<open>Object.prototype\<close> defines is found on the prototype (a function
  or an object, never a number); any other name yields \<open>undefined\<close>.
\<close>

datatype 'a property = Own 'a | Inherited | Undefined

definition object_prototype_keys :: "string list" where
  "object_prototype_keys =
     [''constructor'', ''hasOwnProperty'', ''isPrototypeOf'', ''propertyIsEnumerable'',
      ''toLocaleString'', ''toString'', ''valueOf'', ''__proto__'', ''__defineGetter__'',
      ''__defineSetter__'', ''__lookupGetter__'', ''__lookupSetter__'']"

definition get_property :: "(string \<times> 'a) list \<Rightarrow> string \<Rightarrow> 'a property" where
  "get_property obj k =
     (case map_of obj k of
        Some v \<Rightarrow> Own v
      | None \<Rightarrow> if k \<in> set object_prototype_keys then Inherited else Undefined)"

definition consumptionRates :: "(string \<times> num) list" where
  "consumptionRates =
     [(''mobil'', lit (69 / 1000)),
      (''bus'', lit (91 / 1000)),
      (''motor'', lit (2 / 100)),
      (''ka_argo'', lit (5 / 100)),
      (''kcic'', lit (36 / 1000))]"

definition emissionFactors :: "(string \<times> num) list" where
  "emissionFactors =
     [(''bahan_bakar'', lit (26 / 10)),
      (''listrik_grid'', lit (85 / 100)),
      (''biofuel'', lit (5 / 10)),
      (''listrik_renewable'', lit 0)]"

section \<open>Emission calculations (utils/calculations.js)\<close>

text \<open>
  The scenario object.  A field that the object does not have is \<open>None\<close>; the default
  argument \<open>{}\<close> is the record of all \<open>None\<close>.
\<close>

record scenario =
  traffic :: "string option"
  cuaca :: "string option"
  loadFactor :: "string option"
  energy :: "string option"
  tollOption :: "string option"

definition empty_scenario :: scenario where
  "empty_scenario =
     \<lparr>traffic = None, cuaca = None, loadFactor = None, energy = None, tollOption = None\<rparr>"

definition getAdjustmentFactor :: "scenario \<Rightarrow> num" where
  "getAdjustmentFactor params =
     (let factor = lit 1;
          factor = (if traffic params = Some ''padat'' then fmul factor (lit (11 / 10)) else factor);
          factor = (if traffic params = Some ''sangat_padat'' then fmul factor (lit (12 / 10)) else factor);
          factor = (if cuaca params = Some ''hujan_ringan'' then fmul factor (lit (105 / 100)) else factor);
          factor = (if cuaca params = Some ''hujan_lebat'' then fmul factor (lit (11 / 10)) else factor);
          factor = (if loadFactor params = Some ''peak'' then fmul factor (lit (115 / 100)) else factor)
      in factor)"

text \<open>
  \<open>consumptionRates[mode] || 0\<close>.  An inherited property is truthy and is not a number: the
  multiplication that follows converts it to NaN.
\<close>

definition baseRate :: "string \<Rightarrow> num" where
  "baseRate mode =
     (case get_property consumptionRates mode of
        Own v \<Rightarrow> if truthy v then v else lit 0
      | Inherited \<Rightarrow> NaN
      | Undefined \<Rightarrow> lit 0)"

definition calculateFuelConsumption :: "string \<Rightarrow> num \<Rightarrow> scenario \<Rightarrow> num" where
  "calculateFuelConsumption mode distance adjustments =
     (let adjustmentFactor = getAdjustmentFactor adjustments
      in fmul (fmul (baseRate mode) distance) adjustmentFactor)"

text \<open>
  \<open>emissionFactors[energySource] || emissionFactors.bahan_bakar\<close>, where a missing argument
  is replaced by \<open>'bahan_bakar'\<close>.
\<close>

definition factor_of :: "string option \<Rightarrow> num" where
  "factor_of energySource =
     (let fallback = (case map_of emissionFactors ''bahan_bakar'' of Some v \<Rightarrow> v | None \<Rightarrow> NaN)
      in case get_property emissionFactors (case energySource of None \<Rightarrow> ''bahan_bakar'' | Some e \<Rightarrow> e) of
           Own v \<Rightarrow> if truthy v then v else fallback
         | Inherited \<Rightarrow> NaN
         | Undefined \<Rightarrow> fallback)"

definition calculateEmission :: "num \<Rightarrow> string option \<Rightarrow> num" where
  "calculateEmission fuelConsumption energySource = fmul fuelConsumption (factor_of energySource)"

record calculation_result =
  mode :: string
  distance :: num
  fuelConsumption :: num
  emission :: num
  energySource :: string
  scenario :: scenario

definition calculateComprehensiveEmission :: "string \<Rightarrow> num \<Rightarrow> scenario \<Rightarrow> calculation_result" where
  "calculateComprehensiveEmission m d sc =
     (let fuel = calculateFuelConsumption m d sc;
          source = (case energy sc of None \<Rightarrow> ''bahan_bakar'' | Some e \<Rightarrow> if e = [] then ''bahan_bakar'' else e);
          em = calculateEmission fuel (Some source)
      in \<lparr>mode = m,
          distance = parseFloat (toFixed d 2),
          fuelConsumption = parseFloat (toFixed fuel 3),
          emission = parseFloat (toFixed em 3),
          energySource = source,
          scenario = sc\<rparr>)"

definition modes :: "string list" where
  "modes = [''mobil'', ''bus'', ''motor'', ''ka_argo'', ''kcic'']"

definition calculateAllModes :: "num \<Rightarrow> scenario \<Rightarrow> calculation_result list" where
  "calculateAllModes d sc = map (\<lambda>m. calculateComprehensiveEmission m d sc) modes"

section \<open>Strings\<close>

text \<open>
  \<open>toLowerCase\<close> lowers the letters \<open>A\<close> to \<open>Z\<close> and leaves every other character as it is.
\<close>

definition lower_char :: "char \<Rightarrow> char" where
  "lower_char c =
     (case map_of (zip ''ABCDEFGHIJKLMNOPQRSTUVWXYZ'' ''abcdefghijklmnopqrstuvwxyz'') c of
        Some l \<Rightarrow> l
      | None \<Rightarrow> c)"

definition toLowerCase :: "string \<Rightarrow> string" where
  "toLowerCase s = map lower_char s"

text \<open>\<open>s.includes(t)\<close>: the string \<open>t\<close> occurs in \<open>s\<close> at some position.\<close>

fun includes_str :: "string \<Rightarrow> string \<Rightarrow> bool" where
  "includes_str [] t = (t = [])"
| "includes_str (c # s) t = (prefix t (c # s) \<or> includes_str s t)"

section \<open>Weather adjustment (services/bmkgService.js)\<close>

record current_weather =
  condition :: "string option"
  temperature :: "num option"
  windSpeed :: "num option"

record weather_data =
  current :: "current_weather option"

text \<open>\<open>x || d\<close> for a numeric field \<open>x\<close> that may be missing.\<close>

definition or_default :: "num option \<Rightarrow> num \<Rightarrow> num" where
  "or_default x d = (case x of None \<Rightarrow> d | Some v \<Rightarrow> if truthy v then v else d)"

text \<open>
  The argument is \<open>None\<close> for \<open>null\<close> or \<open>undefined\<close>.  With a condition that is a string
  and numeric fields nothing in the body throws, so the \<open>catch\<close> branch is not reached.
\<close>

definition getWeatherAdjustmentFactor :: "weather_data option \<Rightarrow> num" where
  "getWeatherAdjustmentFactor weatherData =
     (let factor = lit 1
      in case weatherData of
           None \<Rightarrow> factor
         | Some wd \<Rightarrow>
             (case current wd of
                None \<Rightarrow> factor
              | Some cur \<Rightarrow>
                  (let cond = (case condition cur of None \<Rightarrow> [] | Some c \<Rightarrow> toLowerCase c);
                       factor =
                         (if includes_str cond ''hujan ringan'' \<or> includes_str cond ''light rain''
                          then fmul factor (lit (105 / 100))
                          else if includes_str cond ''hujan lebat'' \<or> includes_str cond ''heavy rain''
                                  \<or> includes_str cond ''hujan''
                          then fmul factor (lit (11 / 10))
                          else factor);
                       temp = or_default (temperature cur) (lit 25);
                       factor =
                         (if less_num temp (lit 15) \<or> less_num (lit 35) temp
                          then fmul factor (lit (103 / 100))
                          else factor);
                       wind = or_default (windSpeed cur) (lit 0);
                       factor =
                         (if less_num (lit 15) wind then fmul factor (lit (102 / 100)) else factor)
                   in factor)))"

section \<open>Route adjustment (services/directionsService.js)\<close>

record distance_info =
  km :: num

record duration_info =
  hours :: num

record route_data =
  warnings :: "string list option"
  distance :: "distance_info option"
  duration :: "duration_info option"

record adjustments =
  traffic :: num
  terrain :: num
  urban :: num

datatype js_error = TypeError

definition hasTrafficWarning :: "string list \<Rightarrow> bool" where
  "hasTrafficWarning ws =
     list_ex (\<lambda>warning. includes_str (toLowerCase warning) ''traffic''
                        \<or> includes_str (toLowerCase warning) ''congestion'') ws"

definition no_adjustments :: adjustments where
  "no_adjustments = \<lparr>traffic = lit 1, terrain = lit 1, urban = lit 1\<rparr>"

text \<open>
  The body of the \<open>try\<close> block.  Reading \<open>km\<close> or \<open>hours\<close> of a missing \<open>distance\<close> or
  \<open>duration\<close> object throws a \<open>TypeError\<close>.
\<close>

definition estimateRouteAdjustments_try :: "route_data \<Rightarrow> js_error + adjustments" where
  "estimateRouteAdjustments_try routeData =
     (let adj = no_adjustments;
          adj = (case warnings routeData of
                   None \<Rightarrow> adj
                 | Some ws \<Rightarrow> if hasTrafficWarning ws
                              then adj\<lparr>adjustments.traffic := lit (11 / 10)\<rparr> else adj)
      in case route_data.distance routeData of
           None \<Rightarrow> Inl TypeError
         | Some d \<Rightarrow>
             (case duration routeData of
                None \<Rightarrow> Inl TypeError
              | Some h \<Rightarrow>
                  (let avgSpeed = fdiv (km d) (hours h)
                   in Inr (if less_num avgSpeed (lit 30) then adj\<lparr>urban := lit (115 / 100)\<rparr>
                           else if less_num (lit 80) avgSpeed then adj\<lparr>urban := lit (95 / 100)\<rparr>
                           else adj))))"

text \<open>The \<open>catch\<close> branch returns fresh default adjustments.  The mode is not used.\<close>

definition estimateRouteAdjustments :: "route_data \<Rightarrow> string \<Rightarrow> adjustments" where
  "estimateRouteAdjustments routeData m =
     (case estimateRouteAdjustments_try routeData of
        Inr adj \<Rightarrow> adj
      | Inl e \<Rightarrow> no_adjustments)"

section \<open>Inputs used in the statements\<close>

text \<open>
  The scenario with normal traffic, normal weather, the standard load factor and the
  fossil-fuel energy source: no adjustment applies.
\<close>

definition default_scenario :: scenario where
  "default_scenario =
     \<lparr>scenario.traffic = Some ''normal'', cuaca = Some ''normal'', loadFactor = Some ''standard'',
      energy = Some ''bahan_bakar'', tollOption = Some ''with_tolls''\<rparr>"

text \<open>A weather object \<open>{current: {condition, temperature, windSpeed}}\<close> with all three fields.\<close>

definition snapshot :: "string \<Rightarrow> num \<Rightarrow> num \<Rightarrow> weather_data option" where
  "snapshot c t w =
     Some \<lparr>current = Some \<lparr>condition = Some c, temperature = Some t, windSpeed = Some w\<rparr>\<rparr>"

text \<open>A route object with its warnings, \<open>distance.km\<close> and \<open>duration.hours\<close>.\<close>

definition route :: "string list \<Rightarrow> num \<Rightarrow> num \<Rightarrow> route_data" where
  "route ws d h = \<lparr>warnings = Some ws, distance = Some \<lparr>km = d\<rparr>, duration = Some \<lparr>hours = h\<rparr>\<rparr>"

section \<open>Evaluating binary64 arithmetic\<close>

lemma floor_numeral_quot: "\<lfloor>numeral a / numeral b :: rat\<rfloor> = numeral a div numeral b"
  using floor_divide_of_int_eq [of "numeral a" "numeral b", where ?'a = rat] by simp

lemma ceiling_numeral_quot:
  "\<lceil>numeral a / numeral b :: rat\<rceil> = - ((- numeral a) div numeral b)"
  using ceiling_divide_eq_div [of "numeral a" "numeral b", where ?'a = rat] by simp

text \<open>The equations that evaluate a rounding on numerals; for closed terms only.\<close>

lemmas binary64_eval = lit_def round_binary64_def ilog2_def compute_bitlen pow2_def round_even_def
  Let_def floor_numeral_quot ceiling_numeral_quot signed_def

text \<open>
  The binary64 values of the literals of the program and of the products of its multipliers,
  each with its exact rational value.
\<close>

lemma binary64_vals:
  "round_binary64 False 1 = Finite False 1"
  "round_binary64 False (11 / 10) = Finite False (2476979795053773 / 2251799813685248)"
  "round_binary64 False (6 / 5) = Finite False (5404319552844595 / 4503599627370496)"
  "round_binary64 False (21 / 20) = Finite False (4728779608739021 / 4503599627370496)"
  "round_binary64 False (23 / 20) = Finite False (2589569785738035 / 2251799813685248)"
  "round_binary64 False (103 / 100) = Finite False (4638707616191611 / 4503599627370496)"
  "round_binary64 False (51 / 50) = Finite False (2296835809958953 / 2251799813685248)"
  "round_binary64 False 25 = Finite False 25"
  "round_binary64 False 15 = Finite False 15"
  "round_binary64 False 35 = Finite False 35"
  "round_binary64 False (69 / 1000) = Finite False (1242993497154257 / 18014398509481984)"
  "round_binary64 False (91 / 1000) = Finite False (3278620528725721 / 36028797018963968)"
  "round_binary64 False (1 / 50) = Finite False (5764607523034235 / 288230376151711744)"
  "round_binary64 False (1 / 20) = Finite False (3602879701896397 / 72057594037927936)"
  "round_binary64 False (9 / 250) = Finite False (5188146770730811 / 144115188075855872)"
  "round_binary64 False (13 / 5) = Finite False (5854679515581645 / 2251799813685248)"
  "round_binary64 False (17 / 20) = Finite False (7656119366529843 / 9007199254740992)"
  "round_binary64 False (1 / 2) = Finite False (1 / 2)"
  "round_binary64 False 30 = Finite False 30"
  "round_binary64 False 80 = Finite False 80"
  "round_binary64 False (19 / 20) = Finite False (4278419646001971 / 4503599627370496)"
  "round_binary64 False (759 / 500) = Finite False (6836464234348413 / 4503599627370496)"
  "round_binary64 False (57783 / 50000) = Finite False (5204629945366987 / 4503599627370496)"
  "round_binary64 False 150 = Finite False 150"
  "round_binary64 False (207 / 20) = Finite False (5826532017910579 / 562949953421312)"
  "round_binary64 False (2691 / 100) = Finite False (7574491623283753 / 281474976710656)"
  "round_binary64 False 40 = Finite False 40"
  "round_binary64 False 20 = Finite False 20"
  "round_binary64 False (231 / 200) = Finite False (5201657569612923 / 4503599627370496)"
  "round_binary64 False 60 = Finite False 60"
  "round_binary64 False 2 = Finite False 2"
  "round_binary64 False 160 = Finite False 160"
  "round_binary64 False (2589569785738035 / 2251799813685248) = Finite False (2589569785738035 / 2251799813685248)"
  "round_binary64 False (4728779608739021 / 4503599627370496) = Finite False (4728779608739021 / 4503599627370496)"
  "round_binary64 False (12245504798204695590616188363735 / 10141204801825835211973625643008) = Finite False (2719048275024937 / 2251799813685248)"
  "round_binary64 False (2476979795053773 / 2251799813685248) = Finite False (2476979795053773 / 2251799813685248)"
  "round_binary64 False (6414312037154840794091316356055 / 5070602400912917605986812821504) = Finite False (5697053528623677 / 4503599627370496)"
  "round_binary64 False (11713091546108841110981418376233 / 10141204801825835211973625643008) = Finite False (1300414392403231 / 1125899906842624)"
  "round_binary64 False (1300414392403231 / 1125899906842624) = Finite False (1300414392403231 / 1125899906842624)"
  "round_binary64 False (3367513819506291870072653591085 / 2535301200456458802993406410752) = Finite False (2990953102527431 / 2251799813685248)"
  "round_binary64 False (6135428905104631294035961535529 / 5070602400912917605986812821504) = Finite False (5449355549118301 / 4503599627370496)"
  "round_binary64 False (5449355549118301 / 4503599627370496) = Finite False (5449355549118301 / 4503599627370496)"
  "round_binary64 False (14111486481740650782828810278535 / 10141204801825835211973625643008) = Finite False (3133379440743023 / 2251799813685248)"
  "round_binary64 False (5404319552844595 / 4503599627370496) = Finite False (5404319552844595 / 4503599627370496)"
  "round_binary64 False (13994862626519650993745735670825 / 10141204801825835211973625643008) = Finite False (1553741871442821 / 1125899906842624)"
  "round_binary64 False (25555836100601104869281525441495 / 20282409603651670423947251286016) = Finite False (5674535530486825 / 4503599627370496)"
  "round_binary64 False (5674535530486825 / 4503599627370496) = Finite False (5674535530486825 / 4503599627370496)"
  "round_binary64 False (14694605757845634190825468888875 / 10141204801825835211973625643008) = Finite False (815714482507481 / 562949953421312)"
  "round_binary64 False (13386390338410103065273137406935 / 10141204801825835211973625643008) = Finite False (5944751508129055 / 4503599627370496)"
  "round_binary64 False (5944751508129055 / 4503599627370496) = Finite False (5944751508129055 / 4503599627370496)"
  "round_binary64 False (15394348889171617387905202106925 / 10141204801825835211973625643008) = Finite False (6836464234348413 / 4503599627370496)"
  "round_binary64 False (2296835809958953 / 2251799813685248) = Finite False (2296835809958953 / 2251799813685248)"
  "round_binary64 False (4638707616191611 / 4503599627370496) = Finite False (4638707616191611 / 4503599627370496)"
  "round_binary64 False (10654349764798222934868092943283 / 10141204801825835211973625643008) = Finite False (4731481768515443 / 4503599627370496)"
  "round_binary64 False (10861230342755470160542099405013 / 10141204801825835211973625643008) = Finite False (2411677600456901 / 2251799813685248)"
  "round_binary64 False (21935425986349283058694028552831 / 20282409603651670423947251286016) = Finite False (608830374625149 / 562949953421312)"
  "round_binary64 False (608830374625149 / 562949953421312) = Finite False (608830374625149 / 562949953421312)"
  "round_binary64 False (1398383406629766889398451508997 / 1267650600228229401496703205376) = Finite False (155251745529413 / 140737488355328)"
  "round_binary64 False (5689215893824294112363557779669 / 5070602400912917605986812821504) = Finite False (5053038781909697 / 4503599627370496)"
  "round_binary64 False (11489985040468672520145216498303 / 10141204801825835211973625643008) = Finite False (5102578377810773 / 4503599627370496)"
  "round_binary64 False (5102578377810773 / 4503599627370496) = Finite False (5102578377810773 / 4503599627370496)"
  "round_binary64 False (11719784741278047295507131200669 / 10141204801825835211973625643008) = Finite False (5204629945366989 / 4503599627370496)"
  by (simp_all add: binary64_eval)

lemma round_binary64_zero: "round_binary64 s 0 = Finite s 0"
  by (simp add: round_binary64_def)

lemmas vals = lit_def binary64_vals round_binary64_zero signed_def

lemmas table_eval = get_property_def consumptionRates_def emissionFactors_def
  object_prototype_keys_def baseRate_def factor_of_def

section \<open>The rounding is that of binary64\<close>

text \<open>
  The exponent that \<open>ilog2\<close> computes is the right one, and a finite result of
  \<open>round_binary64\<close> is an integer of at most 53 bits times a power of two not below
  \<open>2 ^ - 1074\<close>, at most half a unit in the last place away from the exact value; the
  integer has 53 bits unless the exponent is the least one.
\<close>

lemma pow2_pos: "0 < pow2 e"
  by (simp add: pow2_def)

lemma round_even_nearest: "\<bar>q - of_int (round_even q)\<bar> \<le> 1 / 2"
proof -
  have "of_int \<lfloor>q\<rfloor> \<le> q" "q < of_int \<lfloor>q\<rfloor> + 1" by linarith+
  then show ?thesis
    by (auto simp add: round_even_def Let_def abs_le_iff)
qed

lemma of_int_pow2_le: "(2::int) ^ k \<le> n \<Longrightarrow> (2::rat) ^ k \<le> of_int n"
  using of_int_le_iff [of "2 ^ k" n, where ?'a = rat] by simp

lemma of_int_succ_le_pow2: "n < (2::int) ^ k \<Longrightarrow> rat_of_int n + 1 \<le> 2 ^ k"
  using of_int_le_iff [of "n + 1" "2 ^ k", where ?'a = rat] by simp

lemma ilog2_bounds:
  assumes "0 < q"
  shows "pow2 (ilog2 q) \<le> q \<and> q < pow2 (ilog2 q + 1)"
proof (cases "1 \<le> q")
  case True
  define n where "n = \<lfloor>q\<rfloor>"
  have n: "0 < n" "of_int n \<le> q" "q < of_int n + 1"
    using True unfolding n_def by linarith+
  define k where "k = bitlen n - 1"
  have k: "0 \<le> k" using n(1) bitlen_nonneg [of n] bitlen_eq_zero_iff [of n] by (simp add: k_def)
  from bitlen_bounds [OF n(1)] have b: "2 ^ nat k \<le> n" "n < 2 ^ nat (k + 1)"
    using k by (simp_all add: k_def)
  have il: "ilog2 q = k" using True by (simp add: ilog2_def n_def k_def)
  have p: "pow2 k = 2 ^ nat k" "pow2 (k + 1) = 2 ^ nat (k + 1)"
    using k by (simp_all add: pow2_def)
  have "pow2 k \<le> q"
    unfolding p using of_int_pow2_le [OF b(1)] n(2) by (rule order_trans)
  moreover have "q < pow2 (k + 1)"
    unfolding p using n(3) of_int_succ_le_pow2 [OF b(2)] by (rule less_le_trans)
  ultimately show ?thesis unfolding il by simp
next
  case False
  define r where "r = 1 / q"
  have r: "1 < r" using assms False by (simp add: r_def)
  define m where "m = \<lceil>r\<rceil> - 1"
  have m: "0 < m" "of_int m < r" "r \<le> of_int m + 1"
    using r unfolding m_def by linarith+
  define j where "j = bitlen m"
  have j: "0 < j" using m(1) bitlen_nonneg [of m] bitlen_eq_zero_iff [of m]
    by (simp add: j_def order.strict_iff_order)
  from bitlen_bounds [OF m(1)] have b: "2 ^ nat (j - 1) \<le> m" "m < 2 ^ nat j"
    by (simp_all add: j_def)
  have il: "ilog2 q = - j" using False by (simp add: ilog2_def m_def r_def j_def)
  have p: "pow2 (- j) = 1 / 2 ^ nat j" "pow2 (- j + 1) = 1 / 2 ^ nat (j - 1)"
    using j by (simp_all add: pow2_def)
  have "r \<le> 2 ^ nat j"
    using m(3) of_int_succ_le_pow2 [OF b(2)] by (rule order_trans)
  then have "1 / q \<le> 2 ^ nat j" by (simp only: r_def)
  then have "1 \<le> 2 ^ nat j * q" using assms by (simp add: field_simps)
  then have 1: "pow2 (- j) \<le> q" unfolding p by (simp add: field_simps)
  have "2 ^ nat (j - 1) < r"
    using of_int_pow2_le [OF b(1)] m(2) by (rule le_less_trans)
  then have "2 ^ nat (j - 1) < 1 / q" by (simp only: r_def)
  then have "2 ^ nat (j - 1) * q < 1" using assms by (simp add: field_simps)
  then have 2: "q < pow2 (- j + 1)" unfolding p by (simp add: field_simps)
  show ?thesis using 1 2 unfolding il by simp
qed

lemma pow2_power_int: "pow2 e = 2 powi e"
  by (simp add: pow2_def power_int_def power_one_over inverse_eq_divide)

lemma pow2_add: "pow2 (x + y) = pow2 x * pow2 y"
  by (simp add: pow2_power_int power_int_add)

lemma pow2_mono: "x \<le> y \<Longrightarrow> pow2 x \<le> pow2 y"
  by (simp add: pow2_power_int power_int_increasing)

lemma round_even_mono_bound:
  assumes "q < of_int n"
  shows "round_even q \<le> n"
proof -
  have "\<lfloor>q\<rfloor> < n" using assms by (simp add: floor_less_iff)
  then show ?thesis by (auto simp add: round_even_def Let_def)
qed

lemma round_even_lower_bound:
  assumes "of_int n \<le> q"
  shows "n \<le> round_even q"
proof -
  have "n \<le> \<lfloor>q\<rfloor>" using assms by (simp add: le_floor_iff)
  then show ?thesis by (auto simp add: round_even_def Let_def)
qed

lemma round_binary64_nearest:
  assumes "0 < a" and "round_binary64 s a = Finite s' v"
  shows "s' = s \<and> (\<exists>m e. v = of_int m * pow2 e \<and> 0 \<le> m \<and> m \<le> 2 ^ 53 \<and> - 1074 \<le> e
           \<and> \<bar>a - v\<bar> \<le> pow2 e / 2 \<and> (e = - 1074 \<or> 2 ^ 52 \<le> m))"
proof -
  define e where "e = max (ilog2 a - 52) (- 1074)"
  define m where "m = round_even (a / pow2 e)"
  have r: "round_binary64 s a =
      (if 2 ^ 1024 \<le> of_int m * pow2 e then Infinity s else Finite s (of_int m * pow2 e))"
    using assms(1) by (simp add: round_binary64_def Let_def e_def m_def)
  with assms(2) have v: "s' = s" "v = of_int m * pow2 e"
    by (auto split: if_splits)
  have e: "- 1074 \<le> e" "ilog2 a - 52 \<le> e" by (simp_all add: e_def)
  have pos: "0 \<le> a / pow2 e" using assms(1) pow2_pos [of e] by simp
  then have m0: "0 \<le> m" unfolding m_def using round_even_lower_bound [of 0 "a / pow2 e"] by simp
  have "a < pow2 (ilog2 a + 1)" using ilog2_bounds [OF assms(1)] by simp
  also have "\<dots> \<le> pow2 (e + 53)" using e(2) by (intro pow2_mono) simp
  also have "\<dots> = pow2 e * 2 ^ 53" by (simp add: pow2_add) (simp add: pow2_def)
  finally have "a / pow2 e < 2 ^ 53" using pow2_pos [of e] by (simp add: field_simps)
  then have "a / pow2 e < of_int (2 ^ 53)" by simp
  then have m53: "m \<le> 2 ^ 53" unfolding m_def by (rule round_even_mono_bound)
  have "\<bar>a / pow2 e - of_int m\<bar> \<le> 1 / 2"
    unfolding m_def by (rule round_even_nearest)
  then have "\<bar>a / pow2 e - of_int m\<bar> * pow2 e \<le> 1 / 2 * pow2 e"
    using pow2_pos [of e] by (intro mult_right_mono) simp_all
  moreover have "\<bar>a / pow2 e - of_int m\<bar> * pow2 e = \<bar>a - of_int m * pow2 e\<bar>"
  proof -
    have "\<bar>a / pow2 e - of_int m\<bar> * pow2 e = \<bar>(a / pow2 e - of_int m) * pow2 e\<bar>"
      using pow2_pos [of e] by (simp add: abs_mult)
    also have "(a / pow2 e - of_int m) * pow2 e = a - of_int m * pow2 e"
      using pow2_pos [of e] by (simp add: field_simps)
    finally show ?thesis .
  qed
  ultimately have near: "\<bar>a - v\<bar> \<le> pow2 e / 2" by (simp add: v)
  have "e = - 1074 \<or> 2 ^ 52 \<le> m"
  proof (cases "e = - 1074")
    case False
    then have ee: "e = ilog2 a - 52" by (simp add: e_def max_def split: if_splits)
    have "pow2 e * 2 ^ 52 = pow2 (e + 52)" by (simp add: pow2_add) (simp add: pow2_def)
    also have "\<dots> \<le> a" using ilog2_bounds [OF assms(1)] by (simp add: ee)
    finally have "2 ^ 52 \<le> a / pow2 e" using pow2_pos [of e] by (simp add: field_simps)
    then have "of_int (2 ^ 52) \<le> a / pow2 e" by simp
    then have "2 ^ 52 \<le> m" unfolding m_def by (rule round_even_lower_bound)
    then show ?thesis by simp
  qed simp
  with v m0 m53 e(1) near show ?thesis by blast
qed

section \<open>Emission factor of renewable electricity\<close>

lemma factor_of_renewable: "factor_of (Some ''listrik_renewable'') = lit (26 / 10)"
  by (simp add: factor_of_def get_property_def emissionFactors_def lit_def round_binary64_def)

text \<open>
  C1.  The claim is that \<open>calculateEmission\<close> with the energy source \<open>listrik_renewable\<close>
  returns 0 for every fuel consumption.  The table gives that source the factor 0, but 0 is
  falsy, so \<open>emissionFactors[energySource] || emissionFactors.bahan_bakar\<close> replaces it by
  the fossil-fuel factor 2.6: the function returns the fuel consumption times 2.6.  For one
  litre that is 2.6 kg, and the car over 150 km in the default scenario with renewable
  electricity is reported with 26.91 kg instead of 0.
\<close>

theorem renewable_emission_uses_fossil_factor:
  "calculateEmission fuel (Some ''listrik_renewable'') = fmul fuel (lit (26 / 10))
   \<and> calculateEmission (lit 1) (Some ''listrik_renewable'') = lit (26 / 10)
   \<and> emission (calculateComprehensiveEmission ''mobil'' (lit 150)
        (default_scenario\<lparr>energy := Some ''listrik_renewable''\<rparr>)) = lit (2691 / 100)"
proof -
  have "calculateEmission x (Some ''listrik_renewable'') = fmul x (lit (26 / 10))" for x
    by (simp add: calculateEmission_def factor_of_renewable)
  moreover have "fmul (lit 1) (lit (26 / 10)) = lit (26 / 10)"
    by (simp add: binary64_eval)
  moreover have "emission (calculateComprehensiveEmission ''mobil'' (lit 150)
        (default_scenario\<lparr>energy := Some ''listrik_renewable''\<rparr>)) = lit (2691 / 100)"
    by (simp add: calculateComprehensiveEmission_def calculateFuelConsumption_def
        getAdjustmentFactor_def default_scenario_def calculateEmission_def table_eval binary64_eval)
  ultimately show ?thesis by simp
qed

section \<open>The adjustment factor of a scenario\<close>

text \<open>
  C3.  For every scenario \<open>getAdjustmentFactor\<close> returns the product, over the base 1, of
  one multiplier per dimension: 1.1 for traffic \<open>padat\<close> and 1.2 for \<open>sangat_padat\<close>, 1.05
  for weather \<open>hujan_ringan\<close> and 1.1 for \<open>hujan_lebat\<close>, 1.15 for load factor \<open>peak\<close>, and
  1 (no multiplier) for any other or missing value.  The products are those of binary64
  arithmetic, taken in the order traffic, weather, load factor.  The default scenario and
  the empty scenario yield exactly 1.
\<close>

theorem adjustment_factor_is_product:
  "getAdjustmentFactor sc =
     fmul (fmul (fmul (lit 1)
       (if scenario.traffic sc = Some ''padat'' then lit (11 / 10)
        else if scenario.traffic sc = Some ''sangat_padat'' then lit (12 / 10) else lit 1))
       (if cuaca sc = Some ''hujan_ringan'' then lit (105 / 100)
        else if cuaca sc = Some ''hujan_lebat'' then lit (11 / 10) else lit 1))
       (if loadFactor sc = Some ''peak'' then lit (115 / 100) else lit 1)
   \<and> getAdjustmentFactor default_scenario = lit 1
   \<and> getAdjustmentFactor empty_scenario = lit 1"
  by (simp add: getAdjustmentFactor_def Let_def default_scenario_def empty_scenario_def vals)

text \<open>
  C9.  For every scenario, whatever its field values, the adjustment factor \<open>f\<close> satisfies
  \<open>1 \<le> f \<le> 1.518\<close>, and the upper bound is the product \<open>1.2 * 1.1 * 1.15\<close> as the program
  computes it.
\<close>

theorem adjustment_factor_bounds:
  "le_num (lit 1) (getAdjustmentFactor sc)
   \<and> le_num (getAdjustmentFactor sc) (lit (1518 / 1000))
   \<and> fmul (fmul (lit (12 / 10)) (lit (11 / 10))) (lit (115 / 100)) = lit (1518 / 1000)"
  by (simp add: getAdjustmentFactor_def Let_def vals)

section \<open>The result record\<close>

text \<open>
  C6.  For the car (\<open>mobil\<close>), 150 km and the default scenario the result record has the
  fuel consumption 10.35 and the emission 26.91: the unrounded values are
  10.350000000000001 and 26.910000000000004, and the rounding to three decimals gives the
  numbers that the literals 10.35 and 26.91 denote.
\<close>

theorem car_150_default:
  "calculateComprehensiveEmission ''mobil'' (lit 150) default_scenario =
     \<lparr>mode = ''mobil'', distance = lit 150, fuelConsumption = lit (1035 / 100),
      emission = lit (2691 / 100), energySource = ''bahan_bakar'', scenario = default_scenario\<rparr>"
  by (simp add: calculateComprehensiveEmission_def calculateFuelConsumption_def
      getAdjustmentFactor_def default_scenario_def calculateEmission_def table_eval binary64_eval)

text \<open>
  C7.  For every mode, distance and scenario the result record is determined as follows.
  The unrounded fuel consumption is base rate times distance times adjustment factor.
  The energy source is \<open>scenario.energy\<close>, or \<open>bahan_bakar\<close> when that field is missing or
  empty.  The emission of the result is the rounding to three decimals of the unrounded
  fuel consumption times the emission factor of that energy source; the fuel consumption
  of the result is the rounding to three decimals of the same unrounded product; the
  distance is rounded to two decimals.  Each field is rounded once, and no rounded value
  enters the computation of another field.  The emission factors of \<open>bahan_bakar\<close>,
  \<open>listrik_grid\<close> and \<open>biofuel\<close> are the table entries 2.6, 0.85 and 0.5.
\<close>

theorem emission_rounded_once:
  "calculateComprehensiveEmission m d sc =
     \<lparr>mode = m,
      distance = parseFloat (toFixed d 2),
      fuelConsumption =
        parseFloat (toFixed (fmul (fmul (baseRate m) d) (getAdjustmentFactor sc)) 3),
      emission =
        parseFloat (toFixed
          (fmul (fmul (fmul (baseRate m) d) (getAdjustmentFactor sc))
             (factor_of (Some (case energy sc of
                                 None \<Rightarrow> ''bahan_bakar''
                               | Some e \<Rightarrow> if e = [] then ''bahan_bakar'' else e)))) 3),
      energySource =
        (case energy sc of None \<Rightarrow> ''bahan_bakar''
         | Some e \<Rightarrow> if e = [] then ''bahan_bakar'' else e),
      scenario = sc\<rparr>
   \<and> factor_of (Some ''bahan_bakar'') = lit (26 / 10)
   \<and> factor_of (Some ''listrik_grid'') = lit (85 / 100)
   \<and> factor_of (Some ''biofuel'') = lit (5 / 10)"
proof -
  have "factor_of (Some ''bahan_bakar'') = lit (26 / 10)"
    "factor_of (Some ''listrik_grid'') = lit (85 / 100)"
    "factor_of (Some ''biofuel'') = lit (5 / 10)"
    by (simp_all add: factor_of_def get_property_def emissionFactors_def vals)
  then show ?thesis
    by (simp add: calculateComprehensiveEmission_def calculateFuelConsumption_def
        calculateEmission_def Let_def)
qed

text \<open>
  The order matters: for the car over 0.01 km the emission is 0.002, while the emission
  computed from the rounded fuel consumption 0.001 would be 0.003.
\<close>

lemma rounded_fuel_would_differ:
  "emission (calculateComprehensiveEmission ''mobil'' (lit (1 / 100)) default_scenario) = lit (2 / 1000)
   \<and> parseFloat (toFixed (calculateEmission
        (fuelConsumption (calculateComprehensiveEmission ''mobil'' (lit (1 / 100)) default_scenario))
        (Some ''bahan_bakar'')) 3) = lit (3 / 1000)"
  by (simp add: calculateComprehensiveEmission_def calculateFuelConsumption_def
      getAdjustmentFactor_def default_scenario_def calculateEmission_def table_eval binary64_eval)

text \<open>
  C8.  For every distance and scenario \<open>calculateAllModes\<close> returns exactly five records,
  those of \<open>calculateComprehensiveEmission\<close> for the modes \<open>mobil\<close>, \<open>bus\<close>, \<open>motor\<close>,
  \<open>ka_argo\<close>, \<open>kcic\<close> in this order, and the mode fields of the list are these five names
  in this order.
\<close>

theorem all_modes_in_order:
  "calculateAllModes d sc =
     [calculateComprehensiveEmission ''mobil'' d sc, calculateComprehensiveEmission ''bus'' d sc,
      calculateComprehensiveEmission ''motor'' d sc, calculateComprehensiveEmission ''ka_argo'' d sc,
      calculateComprehensiveEmission ''kcic'' d sc]
   \<and> length (calculateAllModes d sc) = 5
   \<and> map mode (calculateAllModes d sc) = [''mobil'', ''bus'', ''motor'', ''ka_argo'', ''kcic'']"
  by (simp add: calculateAllModes_def modes_def calculateComprehensiveEmission_def Let_def)

section \<open>Fuel consumption for a negative distance\<close>

lemma round_even_nonneg: "0 \<le> q \<Longrightarrow> 0 \<le> round_even q"
  by (auto simp add: round_even_def Let_def)

text \<open>A rounding keeps the sign bit: the result is finite with that sign or the infinity of that sign.\<close>

lemma round_binary64_cases:
  assumes "0 \<le> a"
  shows "(\<exists>v. 0 \<le> v \<and> round_binary64 s a = Finite s v) \<or> round_binary64 s a = Infinity s"
proof (cases "a = 0")
  case True
  then show ?thesis by (simp add: round_binary64_def)
next
  case False
  define e where "e = max (ilog2 a - 52) (- 1074)"
  define v where "v = rat_of_int (round_even (a / pow2 e)) * pow2 e"
  have "0 \<le> a / pow2 e" using assms pow2_pos [of e] by simp
  then have "0 \<le> v" unfolding v_def using round_even_nonneg pow2_pos [of e]
    by (simp add: less_imp_le)
  moreover have "round_binary64 s a = (if 2 ^ 1024 \<le> v then Infinity s else Finite s v)"
    using False by (simp add: round_binary64_def Let_def e_def v_def)
  ultimately show ?thesis by auto
qed

lemma le_num_negative_rounding: "0 \<le> a \<Longrightarrow> le_num (round_binary64 True a) (lit 0)"
  using round_binary64_cases [of a True]
  by (auto simp add: lit_def round_binary64_def signed_def)

lemma getAdjustmentFactor_sign:
  "(case getAdjustmentFactor sc of Finite s f \<Rightarrow> \<not> s \<and> 0 < f | _ \<Rightarrow> False)"
  by (simp add: getAdjustmentFactor_def Let_def vals)

lemma getAdjustmentFactor_positive: "\<exists>f. 0 < f \<and> getAdjustmentFactor sc = Finite False f"
  using getAdjustmentFactor_sign [of sc] by (cases "getAdjustmentFactor sc") auto

lemma baseRate_sign:
  "m \<in> set modes \<Longrightarrow> (case baseRate m of Finite s r \<Rightarrow> \<not> s \<and> 0 < r | _ \<Rightarrow> False)"
  by (auto simp add: modes_def table_eval vals)

lemma baseRate_modes: "m \<in> set modes \<Longrightarrow> \<exists>r. 0 < r \<and> baseRate m = Finite False r"
  using baseRate_sign [of m] by (cases "baseRate m") auto

text \<open>
  C2, as the code has it.  \<open>calculateFuelConsumption\<close> has no check of its distance and no
  failure: for every finite distance below zero (sign bit set, magnitude \<open>a > 0\<close>) and each
  of the five modes it returns the product of base rate, distance and adjustment factor,
  and that number is at most 0.
\<close>

theorem negative_distance_is_multiplied:
  assumes "0 < a" and "m \<in> set modes"
  shows "calculateFuelConsumption m (Finite True a) sc =
           fmul (fmul (baseRate m) (Finite True a)) (getAdjustmentFactor sc)
         \<and> le_num (calculateFuelConsumption m (Finite True a) sc) (lit 0)"
proof -
  obtain r where r: "0 < r" "baseRate m = Finite False r"
    using baseRate_modes [OF assms(2)] by blast
  obtain f where f: "0 < f" "getAdjustmentFactor sc = Finite False f"
    using getAdjustmentFactor_positive [of sc] by blast
  have eq: "calculateFuelConsumption m (Finite True a) sc =
      fmul (round_binary64 True (r * a)) (Finite False f)"
    by (simp add: calculateFuelConsumption_def r f)
  have "0 \<le> r * a" using r assms by simp
  from round_binary64_cases [OF this, of True]
  have "le_num (fmul (round_binary64 True (r * a)) (Finite False f)) (lit 0)"
  proof
    assume "\<exists>v. 0 \<le> v \<and> round_binary64 True (r * a) = Finite True v"
    then obtain v where v: "0 \<le> v" "round_binary64 True (r * a) = Finite True v" by blast
    have "0 \<le> v * f" using v f by simp
    then show ?thesis using v by (simp add: le_num_negative_rounding)
  next
    assume "round_binary64 True (r * a) = Infinity True"
    then show ?thesis using f by (simp add: lit_def round_binary64_def)
  qed
  then show ?thesis using eq by (simp add: calculateFuelConsumption_def)
qed

theorem negative_distance_is_multiplied_witness:
  "(0::rat) < 10 \<and> ''mobil'' \<in> set modes
   \<and> le_num (calculateFuelConsumption ''mobil'' (Finite True 10) default_scenario) (lit 0)"
  using negative_distance_is_multiplied [of 10 "''mobil''" default_scenario, THEN conjunct2]
  by (simp add: modes_def)

text \<open>
  C2, as stated, fails: for the car and the distance \<open>-10\<close> in the default scenario the
  function returns the number \<open>-0.6900000000000001\<close>, not an error.
\<close>

theorem negative_distance_returns_number:
  "calculateFuelConsumption ''mobil'' (Finite True 10) default_scenario =
     Finite True (6214967485771285 / 9007199254740992)"
  by (simp add: calculateFuelConsumption_def getAdjustmentFactor_def default_scenario_def
      table_eval binary64_eval)

section \<open>Substrings and lower case\<close>

lemmas string_eval = toLowerCase_def lower_char_def

lemma includes_str_sublist: "includes_str s t \<longleftrightarrow> sublist t s"
  by (induction s) (simp_all add: sublist_Cons_right)

lemma sublist_map_iff: "sublist t (map f w) \<longleftrightarrow> (\<exists>u. sublist u w \<and> map f u = t)"
proof
  assume "sublist t (map f w)"
  then obtain ps ss where "map f w = ps @ t @ ss" by (auto simp add: sublist_def)
  then obtain us vs where 1: "w = us @ vs" "t @ ss = map f vs"
    unfolding map_eq_append_conv by blast
  from 1(2) obtain u vs' where 2: "vs = u @ vs'" "t = map f u"
    unfolding append_eq_map_conv by blast
  from 1(1) 2(1) have "sublist u w" by (auto simp add: sublist_def)
  with 2(2) show "\<exists>u. sublist u w \<and> map f u = t" by blast
next
  assume "\<exists>u. sublist u w \<and> map f u = t"
  then obtain u ps ss where "w = ps @ u @ ss" "map f u = t"
    by (auto simp add: sublist_def)
  then have "map f w = map f ps @ t @ map f ss" by simp
  then show "sublist t (map f w)" unfolding sublist_def by blast
qed

text \<open>
  The lower-cased text includes a keyword exactly when the text has a substring that is the
  keyword up to the case of its letters.
\<close>

lemma includes_lower_iff:
  "includes_str (toLowerCase w) k \<longleftrightarrow> (\<exists>u. sublist u w \<and> toLowerCase u = k)"
  by (simp add: includes_str_sublist toLowerCase_def sublist_map_iff)

section \<open>The weather adjustment factor\<close>

lemma wind_default: "less_num (lit 15) (or_default (Some w) (lit 0)) = less_num (lit 15) w"
  by (cases w) (auto simp add: or_default_def vals)

text \<open>
  C4, as stated, fails: the generic English word is not among the phrases the code looks
  for.  For the condition \<open>rain\<close> at 25 degrees without wind the factor is 1, not 1.1.
\<close>

theorem generic_rain_not_matched:
  "getWeatherAdjustmentFactor (snapshot ''rain'' (lit 25) (lit 0)) = lit 1"
  by (simp add: getWeatherAdjustmentFactor_def snapshot_def or_default_def string_eval vals)

text \<open>
  C4, as the code has it.  For every weather object with a condition text \<open>c\<close>, a
  temperature \<open>t\<close> that is not falsy (not 0 and not NaN) and a wind speed \<open>w\<close>, the factor
  is the binary64 product, over the base 1, of:
  1.05 if the lower-cased text includes \<open>hujan ringan\<close> or \<open>light rain\<close>, otherwise 1.1 if
  it includes \<open>hujan lebat\<close>, \<open>heavy rain\<close> or \<open>hujan\<close>;
  1.03 if \<open>t < 15\<close> or \<open>t > 35\<close>;
  1.02 if \<open>w > 15\<close>.
  For \<open>heavy rain\<close>, 40 degrees and wind speed 20 the factor is the product
  \<open>1.1 * 1.03 * 1.02\<close> as binary64 arithmetic computes it.
\<close>

theorem weather_factor_is_product:
  assumes "truthy t"
  shows "getWeatherAdjustmentFactor (snapshot c t w) =
     fmul (fmul (fmul (lit 1)
       (if includes_str (toLowerCase c) ''hujan ringan'' \<or> includes_str (toLowerCase c) ''light rain''
        then lit (105 / 100)
        else if includes_str (toLowerCase c) ''hujan lebat'' \<or> includes_str (toLowerCase c) ''heavy rain''
                \<or> includes_str (toLowerCase c) ''hujan''
        then lit (11 / 10) else lit 1))
       (if less_num t (lit 15) \<or> less_num (lit 35) t then lit (103 / 100) else lit 1))
       (if less_num (lit 15) w then lit (102 / 100) else lit 1)
   \<and> getWeatherAdjustmentFactor (snapshot ''heavy rain'' (lit 40) (lit 20)) =
       fmul (fmul (lit (11 / 10)) (lit (103 / 100))) (lit (102 / 100))"
proof -
  have w: "less_num (Finite False 15) (or_default (Some w) (Finite False 0)) =
      less_num (Finite False 15) w"
    using wind_default [of w] by (simp add: vals)
  have "getWeatherAdjustmentFactor (snapshot c t w) =
     fmul (fmul (fmul (lit 1)
       (if includes_str (toLowerCase c) ''hujan ringan'' \<or> includes_str (toLowerCase c) ''light rain''
        then lit (105 / 100)
        else if includes_str (toLowerCase c) ''hujan lebat'' \<or> includes_str (toLowerCase c) ''heavy rain''
                \<or> includes_str (toLowerCase c) ''hujan''
        then lit (11 / 10) else lit 1))
       (if less_num t (lit 15) \<or> less_num (lit 35) t then lit (103 / 100) else lit 1))
       (if less_num (lit 15) w then lit (102 / 100) else lit 1)"
    using assms
    by (simp add: getWeatherAdjustmentFactor_def snapshot_def Let_def or_default_def [of "Some t"]
        vals w)
  moreover have "getWeatherAdjustmentFactor (snapshot ''heavy rain'' (lit 40) (lit 20)) =
       fmul (fmul (lit (11 / 10)) (lit (103 / 100))) (lit (102 / 100))"
    by (simp add: getWeatherAdjustmentFactor_def snapshot_def or_default_def string_eval vals)
  ultimately show ?thesis by simp
qed

theorem weather_factor_is_product_witness:
  "truthy (lit 40)
   \<and> getWeatherAdjustmentFactor (snapshot ''heavy rain'' (lit 40) (lit 20)) =
       fmul (fmul (fmul (lit 1) (lit (11 / 10))) (lit (103 / 100))) (lit (102 / 100))"
  using weather_factor_is_product [of "lit 40" "''heavy rain''" "lit 20", THEN conjunct1]
  by (simp add: string_eval vals)

text \<open>
  The value of that product is 1.1556600000000004; the literal 1.15566 denotes a smaller
  binary64 value.  A temperature of 0 is falsy and is replaced by 25, so that it is not
  counted as a temperature below 15.
\<close>

lemma heavy_rain_hot_windy_value:
  "getWeatherAdjustmentFactor (snapshot ''heavy rain'' (lit 40) (lit 20)) =
     Finite False (5204629945366989 / 4503599627370496)
   \<and> lit (115566 / 100000) = Finite False (5204629945366987 / 4503599627370496)"
  by (simp add: getWeatherAdjustmentFactor_def snapshot_def or_default_def string_eval vals)

lemma zero_temperature_is_default:
  "getWeatherAdjustmentFactor (snapshot ''cerah'' (lit 0) (lit 0)) = lit 1"
  by (simp add: getWeatherAdjustmentFactor_def snapshot_def or_default_def string_eval vals)

text \<open>
  C10, as stated, fails in its decimal bound: for \<open>heavy rain\<close>, 40 degrees and wind speed
  20 the factor is above the number that the literal 1.15566 denotes.
\<close>

theorem weather_factor_exceeds_decimal_bound:
  "less_num (lit (115566 / 100000))
     (getWeatherAdjustmentFactor (snapshot ''heavy rain'' (lit 40) (lit 20)))"
  by (simp add: getWeatherAdjustmentFactor_def snapshot_def or_default_def string_eval vals)

text \<open>
  C10, as the code has it.  For every argument the factor is at most the binary64 product
  \<open>1.1 * 1.03 * 1.02\<close>, and it is never the product \<open>1.05 * 1.1\<close> of the two rain
  multipliers.  When the lower-cased condition includes \<open>hujan ringan\<close> or \<open>light rain\<close>,
  the factor is 1.05 times at most the temperature and the wind multiplier, whatever
  else the text includes: the multiplier 1.1 is not applied.
\<close>

theorem rain_multipliers_exclusive:
  "le_num (getWeatherAdjustmentFactor wd)
     (fmul (fmul (lit (11 / 10)) (lit (103 / 100))) (lit (102 / 100)))
   \<and> getWeatherAdjustmentFactor wd \<noteq> fmul (lit (105 / 100)) (lit (11 / 10))
   \<and> (includes_str (toLowerCase c) ''hujan ringan'' \<or> includes_str (toLowerCase c) ''light rain'' \<longrightarrow>
        getWeatherAdjustmentFactor
          (Some \<lparr>current = Some \<lparr>condition = Some c, temperature = t, windSpeed = w\<rparr>\<rparr>)
        \<in> set [lit (105 / 100), fmul (lit (105 / 100)) (lit (103 / 100)),
                 fmul (lit (105 / 100)) (lit (102 / 100)),
                 fmul (fmul (lit (105 / 100)) (lit (103 / 100))) (lit (102 / 100))])"
proof -
  have "le_num (getWeatherAdjustmentFactor wd)
      (fmul (fmul (lit (11 / 10)) (lit (103 / 100))) (lit (102 / 100)))"
    by (simp add: getWeatherAdjustmentFactor_def Let_def vals split: option.split)
  moreover have "getWeatherAdjustmentFactor wd \<noteq> fmul (lit (105 / 100)) (lit (11 / 10))"
    by (simp add: getWeatherAdjustmentFactor_def Let_def vals split: option.split)
  moreover have "includes_str (toLowerCase c) ''hujan ringan'' \<or> includes_str (toLowerCase c) ''light rain'' \<Longrightarrow>
        getWeatherAdjustmentFactor
          (Some \<lparr>current = Some \<lparr>condition = Some c, temperature = t, windSpeed = w\<rparr>\<rparr>)
        \<in> set [lit (105 / 100), fmul (lit (105 / 100)) (lit (103 / 100)),
                 fmul (lit (105 / 100)) (lit (102 / 100)),
                 fmul (fmul (lit (105 / 100)) (lit (103 / 100))) (lit (102 / 100))]"
    by (simp add: getWeatherAdjustmentFactor_def Let_def vals)
  ultimately show ?thesis by blast
qed

theorem rain_multipliers_exclusive_witness:
  "(includes_str (toLowerCase ''Light Rain'') ''hujan ringan''
      \<or> includes_str (toLowerCase ''Light Rain'') ''light rain'')
   \<and> getWeatherAdjustmentFactor (snapshot ''Light Rain'' (lit 40) (lit 20))
       = fmul (fmul (lit (105 / 100)) (lit (103 / 100))) (lit (102 / 100))
   \<and> le_num (getWeatherAdjustmentFactor (snapshot ''Light Rain'' (lit 40) (lit 20)))
        (fmul (fmul (lit (11 / 10)) (lit (103 / 100))) (lit (102 / 100)))"
  using rain_multipliers_exclusive [of "snapshot ''Light Rain'' (lit 40) (lit 20)"
      "''Light Rain''" "Some (lit 40)" "Some (lit 20)"]
  by (simp add: getWeatherAdjustmentFactor_def snapshot_def or_default_def string_eval vals)

section \<open>The route adjustments\<close>

lemma hasTrafficWarning_iff:
  "hasTrafficWarning ws \<longleftrightarrow>
     (\<exists>w\<in>set ws. \<exists>u. sublist u w \<and> (toLowerCase u = ''traffic'' \<or> toLowerCase u = ''congestion''))"
  unfolding hasTrafficWarning_def list_ex_iff includes_lower_iff by blast

lemma estimateRouteAdjustments_route:
  "estimateRouteAdjustments (route ws d h) m =
     \<lparr>adjustments.traffic = (if hasTrafficWarning ws then lit (11 / 10) else lit 1),
      terrain = lit 1,
      urban = (if less_num (fdiv d h) (lit 30) then lit (115 / 100)
               else if less_num (lit 80) (fdiv d h) then lit (95 / 100) else lit 1)\<rparr>"
  by (simp add: estimateRouteAdjustments_def estimateRouteAdjustments_try_def route_def
      no_adjustments_def Let_def)

text \<open>
  C5.  For every route with warnings \<open>ws\<close>, distance \<open>d\<close> km and duration \<open>h\<close> hours, and
  every mode, the traffic adjustment is 1.1 exactly when some warning has a substring that
  is \<open>traffic\<close> or \<open>congestion\<close> up to the case of its letters, and 1 otherwise; the
  terrain adjustment is 1; the urban adjustment is 1.15 when the quotient \<open>d / h\<close> is below
  30, 0.95 when it is above 80, and 1 otherwise.  At the quotients 30 (60 km in 2 hours)
  and 80 (160 km in 2 hours) the urban adjustment is 1.
\<close>

theorem route_adjustments:
  "estimateRouteAdjustments (route ws d h) m =
     \<lparr>adjustments.traffic =
        (if \<exists>w\<in>set ws. \<exists>u. sublist u w
               \<and> (toLowerCase u = ''traffic'' \<or> toLowerCase u = ''congestion'')
         then lit (11 / 10) else lit 1),
      terrain = lit 1,
      urban = (if less_num (fdiv d h) (lit 30) then lit (115 / 100)
               else if less_num (lit 80) (fdiv d h) then lit (95 / 100) else lit 1)\<rparr>
   \<and> fdiv (lit 60) (lit 2) = lit 30
   \<and> urban (estimateRouteAdjustments (route ws (lit 60) (lit 2)) m) = lit 1
   \<and> fdiv (lit 160) (lit 2) = lit 80
   \<and> urban (estimateRouteAdjustments (route ws (lit 160) (lit 2)) m) = lit 1"
proof -
  have "fdiv (lit 60) (lit 2) = lit 30" "fdiv (lit 160) (lit 2) = lit 80"
    by (simp_all add: vals)
  moreover have "\<not> less_num (lit 30) (lit 30)" "\<not> less_num (lit 80) (lit 30)"
    "\<not> less_num (lit 80) (lit 80)"
    by (simp_all add: vals)
  ultimately show ?thesis
    by (simp add: estimateRouteAdjustments_route hasTrafficWarning_iff)
qed

theorem route_adjustments_witness:
  "estimateRouteAdjustments (route [''Roadworks'', ''Heavy TRAFFIC ahead''] (lit 60) (lit 4)) ''mobil'' =
     \<lparr>adjustments.traffic = lit (11 / 10), terrain = lit 1, urban = lit (115 / 100)\<rparr>"
proof -
  have "sublist ''TRAFFIC'' ''Heavy TRAFFIC ahead''"
    unfolding sublist_def by (rule exI [of _ "''Heavy ''"], rule exI [of _ "'' ahead''"]) simp
  moreover have "toLowerCase ''TRAFFIC'' = ''traffic''"
    by (simp add: string_eval)
  ultimately have "\<exists>w\<in>set [''Roadworks'', ''Heavy TRAFFIC ahead'']. \<exists>u. sublist u w
               \<and> (toLowerCase u = ''traffic'' \<or> toLowerCase u = ''congestion'')"
    by auto
  moreover have "less_num (fdiv (lit 60) (lit 4)) (lit 30)"
    by (simp add: binary64_eval)
  ultimately show ?thesis
    using route_adjustments [of "[''Roadworks'', ''Heavy TRAFFIC ahead'']" "lit 60" "lit 4" "''mobil''",
        THEN conjunct1]
    by simp
qed

text \<open>
  Further runs: a warning about congestion at 75 km/h; a duration of 0 hours, where the
  quotient is infinite; a route without its distance, where the \<open>catch\<close> branch returns the
  defaults although a warning mentions traffic.
\<close>

lemma route_adjustments_examples:
  "estimateRouteAdjustments (route [''Congestion near exit''] (lit 150) (lit 2)) m =
     \<lparr>adjustments.traffic = lit (11 / 10), terrain = lit 1, urban = lit 1\<rparr>"
  "estimateRouteAdjustments (route [] (lit 150) (lit 0)) m =
     \<lparr>adjustments.traffic = lit 1, terrain = lit 1, urban = lit (95 / 100)\<rparr>"
  "estimateRouteAdjustments
     \<lparr>warnings = Some [''traffic''], distance = None, duration = Some \<lparr>hours = lit 2\<rparr>\<rparr> m =
     no_adjustments"
  by (simp_all add: estimateRouteAdjustments_def estimateRouteAdjustments_try_def route_def
      no_adjustments_def hasTrafficWarning_def string_eval binary64_eval)

end
